theory Spec2Isabelle
  imports Complex_Main
begin

section \<open>Values, errors and the fitted model\<close>

text \<open>
  A shallow embedding of \<^verbatim>\<open>RuleListClassifier.py\<close>. Every \<^verbatim>\<open>raise\<close>, failed
  \<^verbatim>\<open>assert\<close>, missing attribute and out-of-range index of the Python is a value
  \<open>Inl e\<close>; an operation that may assign to \<^verbatim>\<open>self\<close> returns the model next to its
  result, on the error paths too, since a Python exception keeps the assignments made
  before it. Printing under \<^verbatim>\<open>verbose\<close> is not modelled, and neither are \<^verbatim>\<open>fit2\<close>
  and \<^verbatim>\<open>score\<close>, which no statement below is about.
\<close>

datatype error =
    Exception string
  | AssertionError
  | AttributeError string
  | IndexError
  | TypeError string
  | ValueError string

text \<open>
  A cell of a data matrix is a string (categorical data) or a number (data that
  \<^verbatim>\<open>fit\<close> hands to the discretizer). Floating-point numbers are idealised as reals.
\<close>

datatype cell = Str string | Num real

type_synonym matrix = "cell list list"

text \<open>
  An entry of \<^verbatim>\<open>self.itemsets\<close>: the string \<^verbatim>\<open>'null'\<close> that \<^verbatim>\<open>fit\<close> puts at index 0,
  or a mined tuple of items. \<^verbatim>\<open>set(lhs)\<close> and \<^verbatim>\<open>lhs[k]\<close> read a tuple's items and a
  string's characters.
\<close>

datatype antecedent = Null_str | Tuple "cell list"

fun items_of :: "antecedent \<Rightarrow> cell list" where
  "items_of Null_str = [Str ''n'', Str ''u'', Str ''l'', Str ''l'']"
| "items_of (Tuple t) = t"

record dataframe =
  df_values :: matrix
  df_columns :: "string list"

text \<open>
  The MDLP discretizer object. Only its \<^verbatim>\<open>_data\<close> attribute is read and written by
  the classifier; its cut points are its own.
\<close>

record discretizer =
  d_data :: dataframe
  d_cuts :: "(string \<times> real list) list"

text \<open>
  The classifier object. \<open>d_star\<close> and \<open>discretizer\<close> are set to \<^verbatim>\<open>None\<close> by
  \<^verbatim>\<open>__init__\<close>. The attributes \<open>feature_labels\<close>, \<open>itemsets\<close>, \<open>theta\<close> and
  \<open>ci_theta\<close> do not exist until \<^verbatim>\<open>fit\<close> assigns them: there \<open>None\<close> stands for
  the missing attribute, and reading it raises \<^verbatim>\<open>AttributeError\<close>.
\<close>

record model =
  listlengthprior :: int
  listwidthprior :: int
  maxcardinality :: int
  minsupport :: int
  alpha :: "real list"
  n_chains :: int
  max_iter :: int
  class1label :: string
  verbose :: bool
  thinning :: int
  burnin :: int
  discretizer :: "discretizer option"
  d_star :: "nat list option"
  feature_labels :: "string list option"
  itemsets :: "antecedent list option"
  theta :: "real list option"
  ci_theta :: "(real \<times> real) list option"

definition init :: "int \<Rightarrow> int \<Rightarrow> int \<Rightarrow> int \<Rightarrow> real list \<Rightarrow> int \<Rightarrow> int \<Rightarrow> string \<Rightarrow> bool \<Rightarrow> model" where
  "init llp lwp maxcard minsupp alph nch iters label verb =
     \<lparr> listlengthprior = llp, listwidthprior = lwp, maxcardinality = maxcard,
       minsupport = minsupp, alpha = alph, n_chains = nch, max_iter = iters,
       class1label = label, verbose = verb,
       thinning = 1, burnin = iters div 2,
       discretizer = None, d_star = None,
       feature_labels = None, itemsets = None, theta = None, ci_theta = None \<rparr>"

definition default_model :: model where
  "default_model = init 3 1 2 10 [1, 1] 3 50000 ''class 1'' True"

definition attr :: "string \<Rightarrow> 'a option \<Rightarrow> error + 'a" where
  "attr name v = (case v of None \<Rightarrow> Inl (AttributeError name) | Some x \<Rightarrow> Inr x)"

text \<open>Python's truth value of \<^verbatim>\<open>self.d_star\<close>: \<^verbatim>\<open>None\<close> and the empty list are false.\<close>

definition truthy :: "nat list option \<Rightarrow> bool" where
  "truthy d = (case d of None \<Rightarrow> False | Some l \<Rightarrow> l \<noteq> [])"

section \<open>External collaborators\<close>

text \<open>
  The functions the classifier imports and calls, taken as parameters: scikit-learn's
  \<^verbatim>\<open>check_X_y\<close>, the frequent-itemset miner \<^verbatim>\<open>fpgrowth\<close> (with the spelling of its
  cardinality keyword), pandas' \<^verbatim>\<open>DataFrame\<close>, the MDLP discretizer, numpy's
  \<^verbatim>\<open>astype(str)\<close> and \<^verbatim>\<open>str(np.round(x, decimals))\<close>, and the sampler, merger, point
  estimator, consequent estimator and predictor of \<^verbatim>\<open>LethamBRL.BRL_code\<close>. The types
  \<open>'r\<close> and \<open>'p\<close> are the sampler's result and the merged permutation table. One
  environment stands for one run: the sampler's random draws are part of it.
\<close>

datatype kw = Zmax | Max

record ('r, 'p) env =
  check_X_y :: "matrix \<Rightarrow> int list \<Rightarrow> error + (matrix \<times> int list)"
  fpgrowth :: "matrix \<Rightarrow> int \<Rightarrow> kw \<Rightarrow> int \<Rightarrow> error + (cell list \<times> int) list"
  DataFrame :: "matrix \<Rightarrow> string list \<Rightarrow> error + dataframe"
  MDLP_Discretizer :: "dataframe \<Rightarrow> string \<Rightarrow> error + discretizer"
  apply_cutpoints :: "discretizer \<Rightarrow> error + discretizer"
  astype_str :: "cell \<Rightarrow> string"
  str_round :: "real \<Rightarrow> int \<Rightarrow> string"
  run_bdl_multichain_serial ::
    "model \<Rightarrow> nat set list \<Rightarrow> int list list \<Rightarrow> (nat \<Rightarrow> nat) \<Rightarrow> nat list \<Rightarrow> error + ('r \<times> real)"
  merge_chains :: "'r \<Rightarrow> error + 'p"
  get_point_estimate ::
    "'p \<Rightarrow> nat list \<Rightarrow> nat set list \<Rightarrow> int list list \<Rightarrow> model \<Rightarrow> (nat \<Rightarrow> nat) \<Rightarrow> error + nat list option"
  get_rule_rhs ::
    "nat set list \<Rightarrow> int list list \<Rightarrow> nat list \<Rightarrow> real list \<Rightarrow> error + (real list \<times> (real \<times> real) list)"
  preds_d_t ::
    "nat set list \<Rightarrow> int list list \<Rightarrow> nat list option \<Rightarrow> real list \<Rightarrow> error + real list"

section \<open>Satisfaction sets\<close>

text \<open>
  \<^verbatim>\<open>set([i for (i,xi) in enumerate(data) if set(lhs).issubset(xi)])\<close>
\<close>

definition satisfying :: "cell list \<Rightarrow> matrix \<Rightarrow> nat set" where
  "satisfying lhs rows =
     set (map fst (filter (\<lambda>(i, xi). set lhs \<subseteq> set xi) (enumerate 0 rows)))"

text \<open>
  The encoding loop of \<^verbatim>\<open>fit\<close>: a list of \<open>len(itemsets)+1\<close> empty sets, entry 0
  overwritten with the full range, entry \<open>j+1\<close> with the rows that contain itemset \<open>j\<close>.
\<close>

definition fit_encode :: "cell list list \<Rightarrow> matrix \<Rightarrow> nat set list" where
  "fit_encode mined rows =
     fold (\<lambda>(j, lhs) X. X[j + 1 := satisfying lhs rows])
       (enumerate 0 mined)
       ((replicate (length mined + 1) {})[0 := {0..<length rows}])"

text \<open>
  \<^verbatim>\<open>_to_itemset_indices\<close>: the same encoding over \<^verbatim>\<open>self.itemsets\<close>, whose entry 0 is
  skipped. \<^verbatim>\<open>X[0] = ...\<close> raises \<^verbatim>\<open>IndexError\<close> when \<^verbatim>\<open>self.itemsets\<close> is empty.
\<close>

definition to_itemset_indices :: "model \<Rightarrow> matrix \<Rightarrow> error + nat set list" where
  "to_itemset_indices m rows =
     (case attr ''itemsets'' (itemsets m) of
        Inl e \<Rightarrow> Inl e
      | Inr its \<Rightarrow>
          if its = [] then Inl IndexError
          else Inr (fold (\<lambda>(j, lhs) X. if j > 0 then X[j := satisfying (items_of lhs) rows] else X)
                      (enumerate 0 its)
                      ((replicate (length its) {})[0 := {0..<length rows}])))"

section \<open>Prediction\<close>

text \<open>
  \<^verbatim>\<open>_prepend_feature_labels\<close>: every cell is turned into a string, then the first
  \<open>len(Xl[0])\<close> cells of every row get their feature label in front. The attribute
  \<^verbatim>\<open>self.feature_labels\<close> is read only if the loops run at all.
\<close>

definition prepend_feature_labels :: "('r, 'p) env \<Rightarrow> model \<Rightarrow> matrix \<Rightarrow> error + matrix" where
  "prepend_feature_labels env m X =
     (let Xl = map (map (astype_str env)) X in
      if Xl = [] \<or> hd Xl = [] then Inr (map (map Str) Xl)
      else case attr ''feature_labels'' (feature_labels m) of
          Inl e \<Rightarrow> Inl e
        | Inr fl \<Rightarrow>
            if length fl < length (hd Xl) \<or> \<not> list_all (\<lambda>r. length (hd Xl) \<le> length r) Xl
            then Inl IndexError
            else Inr (map (\<lambda>r. map (\<lambda>(j, s). Str (if j < length (hd Xl) then fl ! j @ '' : '' @ s else s))
                                  (enumerate 0 r)) Xl))"

text \<open>
  Lines 276 to 281 of \<^verbatim>\<open>predict_proba\<close>: with a discretizer, the input replaces the
  discretizer's \<^verbatim>\<open>_data\<close>, the cut points are applied, the last column is dropped and
  the labels are prepended; without one the input is used as it is.
\<close>

definition predict_data :: "('r, 'p) env \<Rightarrow> model \<Rightarrow> matrix \<Rightarrow> (error + matrix) \<times> model" where
  "predict_data env m X =
     (case discretizer m of
        None \<Rightarrow> (Inr X, m)
      | Some disc \<Rightarrow>
          (case attr ''feature_labels'' (feature_labels m) of
             Inl e \<Rightarrow> (Inl e, m)
           | Inr fl \<Rightarrow>
               (case DataFrame env X fl of
                  Inl e \<Rightarrow> (Inl e, m)
                | Inr df \<Rightarrow>
                    (case apply_cutpoints env (disc\<lparr>d_data := df\<rparr>) of
                       Inl e \<Rightarrow> (Inl e, m\<lparr>discretizer := Some (disc\<lparr>d_data := df\<rparr>)\<rparr>)
                     | Inr disc' \<Rightarrow>
                         (prepend_feature_labels env (m\<lparr>discretizer := Some disc'\<rparr>)
                            (map butlast (df_values (d_data disc'))),
                          m\<lparr>discretizer := Some disc'\<rparr>)))))"

text \<open>
  \<^verbatim>\<open>predict_proba\<close>: the satisfaction sets of the input, the per-sample probability
  \<open>P\<close> from \<^verbatim>\<open>preds_d_t\<close>, and the rows \<open>[1 - P, P]\<close> of \<^verbatim>\<open>np.vstack((1-P, P)).T\<close>.
\<close>

definition predict_proba :: "('r, 'p) env \<Rightarrow> model \<Rightarrow> matrix \<Rightarrow> (error + real list list) \<times> model" where
  "predict_proba env m X =
     (case predict_data env m X of
        (Inl e, m') \<Rightarrow> (Inl e, m')
      | (Inr D, m') \<Rightarrow>
          (case to_itemset_indices m' D of
             Inl e \<Rightarrow> (Inl e, m')
           | Inr Xs \<Rightarrow>
               (case attr ''theta'' (theta m') of
                  Inl e \<Rightarrow> (Inl e, m')
                | Inr th \<Rightarrow>
                    (case preds_d_t env Xs (replicate (length D) [0]) (d_star m') th of
                       Inl e \<Rightarrow> (Inl e, m')
                     | Inr P \<Rightarrow> (Inr (map (\<lambda>p. [1 - p, p]) P), m')))))"

text \<open>
  \<^verbatim>\<open>predict\<close>: \<^verbatim>\<open>1*(self.predict_proba(X)[:,0]>=0.5)\<close>.
\<close>

definition predict :: "('r, 'p) env \<Rightarrow> model \<Rightarrow> matrix \<Rightarrow> (error + int list) \<times> model" where
  "predict env m X =
     (case predict_proba env m X of
        (Inl e, m') \<Rightarrow> (Inl e, m')
      | (Inr T, m') \<Rightarrow> (Inr (map (\<lambda>r. if r ! 0 \<ge> 1 / 2 then 1 else 0) T), m'))"

section \<open>The report\<close>

fun join :: "string \<Rightarrow> string list \<Rightarrow> string" where
  "join sep [] = ''''"
| "join sep [s] = s"
| "join sep (s # t # r) = s @ sep @ join sep (t # r)"

fun str_items :: "cell list \<Rightarrow> error + string list" where
  "str_items [] = Inr []"
| "str_items (Str s # r) = (case str_items r of Inl e \<Rightarrow> Inl e | Inr l \<Rightarrow> Inr (s # l))"
| "str_items (Num x # r) = Inl (TypeError ''sequence item: expected string'')"

definition condition_of :: "antecedent \<Rightarrow> error + string" where
  "condition_of a =
     (case a of
        Null_str \<Rightarrow> Inr ''ELSE''
      | Tuple t \<Rightarrow>
          (case str_items t of
             Inl e \<Rightarrow> Inl e
           | Inr l \<Rightarrow> Inr (''ELSE IF '' @ join '' AND '' l @ '' THEN'')))"

definition rule_line :: "('r, 'p) env \<Rightarrow> model \<Rightarrow> int \<Rightarrow> nat \<Rightarrow> nat \<Rightarrow> error + string" where
  "rule_line env m decimals i j =
     (case attr ''itemsets'' (itemsets m) of
        Inl e \<Rightarrow> Inl e
      | Inr its \<Rightarrow>
          if length its \<le> j then Inl IndexError
          else (case condition_of (its ! j) of
             Inl e \<Rightarrow> Inl e
           | Inr c \<Rightarrow>
               (case attr ''theta'' (theta m) of
                  Inl e \<Rightarrow> Inl e
                | Inr th \<Rightarrow>
                    if length th \<le> i then Inl IndexError
                    else (case attr ''ci_theta'' (ci_theta m) of
                       Inl e \<Rightarrow> Inl e
                     | Inr ci \<Rightarrow>
                         if length ci \<le> i then Inl IndexError
                         else Inr (c @ '' probability of '' @ class1label m @ '': ''
                                   @ str_round env (th ! i * 100) decimals @ ''% (''
                                   @ str_round env (fst (ci ! i) * 100) decimals @ ''%-''
                                   @ str_round env (snd (ci ! i) * 100) decimals @ ''%)''
                                   @ [CHR 0x0A])))))"

fun rule_lines :: "('r, 'p) env \<Rightarrow> model \<Rightarrow> int \<Rightarrow> (nat \<times> nat) list \<Rightarrow> error + string" where
  "rule_lines env m decimals [] = Inr ''''"
| "rule_lines env m decimals ((i, j) # r) =
     (case rule_line env m decimals i j of
        Inl e \<Rightarrow> Inl e
      | Inr l \<Rightarrow>
          (case rule_lines env m decimals r of
             Inl e \<Rightarrow> Inl e
           | Inr s \<Rightarrow> Inr (l @ s)))"

text \<open>
  \<^verbatim>\<open>tostring\<close>, and \<^verbatim>\<open>__str__\<close>, which calls it with one decimal.
\<close>

definition tostring :: "('r, 'p) env \<Rightarrow> model \<Rightarrow> int \<Rightarrow> error + string" where
  "tostring env m decimals =
     (if truthy (d_star m) then
        (let detect = (if class1label m \<noteq> ''class 1'' then ''for detecting '' @ class1label m else '''');
             header = ''Trained RuleListClassifier '' @ detect @ [CHR 0x0A];
             separator = replicate (length header) (CHR ''='') @ [CHR 0x0A]
         in case rule_lines env m decimals (enumerate 0 (case d_star m of None \<Rightarrow> [] | Some d \<Rightarrow> d)) of
              Inl e \<Rightarrow> Inl e
            | Inr s \<Rightarrow> Inr (header @ separator @ drop 5 s @ tl separator))
      else Inr ''(Untrained RuleListClassifier)'')"

definition str :: "('r, 'p) env \<Rightarrow> model \<Rightarrow> error + string" where
  "str env m = tostring env m 1"

section \<open>Training\<close>

text \<open>
  The first statement of \<^verbatim>\<open>fit\<close>:
  \<^verbatim>\<open>if len(set(y)) != 2: raise Exception("Only binary classification is supported at this time!")\<close>
\<close>

definition label_check :: "int list \<Rightarrow> error + unit" where
  "label_check y =
     (if card (set y) \<noteq> 2
      then Inl (Exception ''Only binary classification is supported at this time!'')
      else Inr ())"

text \<open>Python's \<^verbatim>\<open>str\<close> of a natural number, for the default labels \<^verbatim>\<open>"ft"+str(i+1)\<close>.\<close>

function str_nat :: "nat \<Rightarrow> string" where
  "str_nat n =
     (if n < 10 then [char_of (48 + n)]
      else str_nat (n div 10) @ [char_of (48 + n mod 10)])"
  by pat_completeness auto
termination
  by (relation "measure id") auto

definition fit_feature_labels :: "matrix \<Rightarrow> string list option \<Rightarrow> error + string list" where
  "fit_feature_labels X given =
     (case given of
        Some l \<Rightarrow> Inr l
      | None \<Rightarrow>
          (case X of
             [] \<Rightarrow> Inl IndexError
           | x0 # _ \<Rightarrow> Inr (map (\<lambda>i. ''ft'' @ str_nat (i + 1)) [0..<length x0])))"

text \<open>
  \<^verbatim>\<open>discretize\<close>: the labels become the last column of a data frame, the discretizer
  built from it is stored in \<^verbatim>\<open>self.discretizer\<close>, and its data without that column
  come back with the feature labels prepended.
\<close>

definition discretize :: "('r, 'p) env \<Rightarrow> model \<Rightarrow> matrix \<Rightarrow> int list \<Rightarrow> (error + matrix) \<times> model" where
  "discretize env m X y =
     (if length X \<noteq> length y then (Inl (ValueError ''all the input array dimensions must match''), m)
      else case attr ''feature_labels'' (feature_labels m) of
          Inl e \<Rightarrow> (Inl e, m)
        | Inr fl \<Rightarrow>
            (case DataFrame env (map (\<lambda>(r, yi). r @ [Num (real_of_int yi)]) (zip X y)) (fl @ [''y'']) of
               Inl e \<Rightarrow> (Inl e, m)
             | Inr D \<Rightarrow>
                 (case MDLP_Discretizer env D ''y'' of
                    Inl e \<Rightarrow> (Inl e, m)
                  | Inr disc \<Rightarrow>
                      (prepend_feature_labels env (m\<lparr>discretizer := Some disc\<rparr>)
                         (map butlast (df_values (d_data disc))),
                       m\<lparr>discretizer := Some disc\<rparr>))))"

text \<open>
  Lines 165 to 168: data whose first cell is not a string are discretized.
\<close>

definition fit_categorical :: "('r, 'p) env \<Rightarrow> model \<Rightarrow> matrix \<Rightarrow> int list \<Rightarrow> (error + matrix) \<times> model" where
  "fit_categorical env m X y =
     (case X of
        [] \<Rightarrow> (Inl IndexError, m)
      | [] # _ \<Rightarrow> (Inl IndexError, m)
      | (Str s # _) # _ \<Rightarrow> (Inr X, m)
      | (Num x # _) # _ \<Rightarrow> discretize env m X y)"

text \<open>
  \<^verbatim>\<open>[x for i,x in enumerate(data) if y[i]==v]\<close>: reading \<open>y[i]\<close> past the end of the
  labels raises \<^verbatim>\<open>IndexError\<close>.
\<close>

definition select_label :: "matrix \<Rightarrow> int list \<Rightarrow> int \<Rightarrow> error + matrix" where
  "select_label rows y v =
     (if length y < length rows then Inl IndexError
      else Inr (map snd (filter (\<lambda>(i, x). y ! i = v) (enumerate 0 rows))))"

text \<open>
  The two mining calls of one spelling of the cardinality keyword, and the
  \<^verbatim>\<open>try\<close>/\<^verbatim>\<open>except TypeError\<close> around them: a \<^verbatim>\<open>TypeError\<close> of either call under
  \<^verbatim>\<open>zmax=\<close> runs both again under \<^verbatim>\<open>max=\<close>; every other result stands.
\<close>

definition mine_both ::
  "(matrix \<Rightarrow> int \<Rightarrow> kw \<Rightarrow> int \<Rightarrow> error + (cell list \<times> int) list) \<Rightarrow> kw \<Rightarrow> matrix \<Rightarrow> matrix \<Rightarrow> int \<Rightarrow> int
     \<Rightarrow> error + cell list list" where
  "mine_both fp k data_pos data_neg supp maxcard =
     (case fp data_pos supp k maxcard of
        Inl e \<Rightarrow> Inl e
      | Inr found_pos \<Rightarrow>
          (case fp data_neg supp k maxcard of
             Inl e \<Rightarrow> Inl e
           | Inr found_neg \<Rightarrow> Inr (map fst found_pos @ map fst found_neg)))"

definition fit_mine ::
  "(matrix \<Rightarrow> int \<Rightarrow> kw \<Rightarrow> int \<Rightarrow> error + (cell list \<times> int) list) \<Rightarrow> matrix \<Rightarrow> matrix \<Rightarrow> int \<Rightarrow> int
     \<Rightarrow> error + cell list list" where
  "fit_mine fp data_pos data_neg supp maxcard =
     (case mine_both fp Zmax data_pos data_neg supp maxcard of
        Inl (TypeError msg) \<Rightarrow> mine_both fp Max data_pos data_neg supp maxcard
      | r \<Rightarrow> r)"

text \<open>
  Lines 172 to 184: the class partitions, the assertion on their sizes, the mining and
  the removal of duplicates. The order of \<^verbatim>\<open>list(set(itemsets))\<close> is Python's set
  order; \<open>remdups\<close> fixes one order, and nothing below depends on which.
\<close>

definition fit_candidates :: "('r, 'p) env \<Rightarrow> model \<Rightarrow> matrix \<Rightarrow> int list \<Rightarrow> error + cell list list" where
  "fit_candidates env m rows y =
     (case select_label rows y 0 of
        Inl e \<Rightarrow> Inl e
      | Inr data_pos \<Rightarrow>
          (case select_label rows y 1 of
             Inl e \<Rightarrow> Inl e
           | Inr data_neg \<Rightarrow>
               if length data_pos + length data_neg \<noteq> length rows then Inl AssertionError
               else (case fit_mine (fpgrowth env) data_pos data_neg (minsupport m) (maxcardinality m) of
                  Inl e \<Rightarrow> Inl e
                | Inr found \<Rightarrow> Inr (remdups found))))"

text \<open>
  Lines 187 to 217: the satisfaction sets, the antecedent lengths and their counts, the
  assignment of \<^verbatim>\<open>self.itemsets\<close>, the sampler, the merger, the point estimate stored in
  \<^verbatim>\<open>self.d_star\<close>, and the consequents when the point estimate is true.
\<close>

definition fit_sample :: "('r, 'p) env \<Rightarrow> model \<Rightarrow> cell list list \<Rightarrow> matrix \<Rightarrow> int list \<Rightarrow> (error + unit) \<times> model" where
  "fit_sample env m mined rows y =
     (let Xtrain = fit_encode mined rows;
          lhs_len = 0 # map length mined;
          nruleslen = count_list lhs_len;
          Ytrain = map (\<lambda>yi. [yi, 1 - yi]) y;
          m1 = m\<lparr>itemsets := Some (Null_str # map Tuple mined)\<rparr>
      in case run_bdl_multichain_serial env m1 Xtrain Ytrain nruleslen lhs_len of
           Inl e \<Rightarrow> (Inl e, m1)
         | Inr (res, Rhat) \<Rightarrow>
             (case merge_chains env res of
                Inl e \<Rightarrow> (Inl e, m1)
              | Inr permsdic \<Rightarrow>
                  (case get_point_estimate env permsdic lhs_len Xtrain Ytrain m1 nruleslen of
                     Inl e \<Rightarrow> (Inl e, m1)
                   | Inr None \<Rightarrow> (Inr (), m1\<lparr>d_star := None\<rparr>)
                   | Inr (Some d) \<Rightarrow>
                       if d = [] then (Inr (), m1\<lparr>d_star := Some d\<rparr>)
                       else (case get_rule_rhs env Xtrain Ytrain d (alpha m1) of
                          Inl e \<Rightarrow> (Inl e, m1\<lparr>d_star := Some d\<rparr>)
                        | Inr (th, ci) \<Rightarrow>
                            (Inr (), m1\<lparr>d_star := Some d, theta := Some th, ci_theta := Some ci\<rparr>)))))"

text \<open>
  \<^verbatim>\<open>fit\<close>. The label check comes first; \<^verbatim>\<open>self.feature_labels\<close> is the first
  attribute assigned, after \<^verbatim>\<open>check_X_y\<close> has returned.
\<close>

definition fit ::
  "('r, 'p) env \<Rightarrow> model \<Rightarrow> matrix \<Rightarrow> int list \<Rightarrow> string list option \<Rightarrow> (error + unit) \<times> model" where
  "fit env m X y given =
     (case label_check y of
        Inl e \<Rightarrow> (Inl e, m)
      | Inr _ \<Rightarrow>
          (case check_X_y env X y of
             Inl e \<Rightarrow> (Inl e, m)
           | Inr (X1, y1) \<Rightarrow>
               (case fit_feature_labels X1 given of
                  Inl e \<Rightarrow> (Inl e, m)
                | Inr fl \<Rightarrow>
                    (case fit_categorical env (m\<lparr>feature_labels := Some fl\<rparr>) X1 y1 of
                       (Inl e, m2) \<Rightarrow> (Inl e, m2)
                     | (Inr rows, m2) \<Rightarrow>
                         (case fit_candidates env m2 rows y1 of
                            Inl e \<Rightarrow> (Inl e, m2)
                          | Inr mined \<Rightarrow> fit_sample env m2 mined rows y1)))))"

section \<open>The predictor of the point estimate\<close>

text \<open>
  Modelled from the spec: \<^verbatim>\<open>preds_d_t\<close> of \<^verbatim>\<open>LethamBRL.BRL_code\<close>, which is not in the
  sources. Section 4.6: for each transaction the point-estimate list is evaluated in
  order; the first rule whose satisfaction set holds the transaction gives that
  position's \<open>theta\<close>; if none matches, the terminal null rule's probability (the last
  \<open>theta\<close>) applies. Section 4.4: with no point estimate, prediction is unsupported.
  It serves as the concrete predictor of the examples; the theorems about
  \<open>predict_proba\<close> and \<open>predict\<close> hold for every predictor.
\<close>

fun first_match :: "nat set list \<Rightarrow> real list \<Rightarrow> nat \<Rightarrow> (nat \<times> nat) list \<Rightarrow> error + real" where
  "first_match Xs th i [] = (if th = [] then Inl IndexError else Inr (last th))"
| "first_match Xs th i ((k, j) # r) =
     (if length Xs \<le> j \<or> length th \<le> k then Inl IndexError
      else if i \<in> Xs ! j then Inr (th ! k)
      else first_match Xs th i r)"

fun collect :: "(error + 'a) list \<Rightarrow> error + 'a list" where
  "collect [] = Inr []"
| "collect (Inl e # r) = Inl e"
| "collect (Inr x # r) = (case collect r of Inl e \<Rightarrow> Inl e | Inr l \<Rightarrow> Inr (x # l))"

definition preds_d_t_spec :: "nat set list \<Rightarrow> int list list \<Rightarrow> nat list option \<Rightarrow> real list \<Rightarrow> error + real list" where
  "preds_d_t_spec Xs Y d th =
     (case d of
        None \<Rightarrow> Inl (TypeError ''no point estimate'')
      | Some l \<Rightarrow> collect (map (\<lambda>i. first_match Xs th i (enumerate 0 l)) [0..<length Y]))"

section \<open>The consequents of the point estimate\<close>

text \<open>
  Modelled from the spec: \<^verbatim>\<open>get_rule_rhs\<close> of \<^verbatim>\<open>LethamBRL.BRL_code\<close>, which is not in the
  sources. Section 4.5: for each position of the list, the transactions attributed to
  it under first-match semantics, and the posterior mean
  (pseudocount 1 + observed count 1) / (both pseudocounts + both observed counts),
  where the counts 0 and 1 are those of columns 0 and 1 of \<^verbatim>\<open>Ytrain\<close>. \<^verbatim>\<open>fit\<close> passes
  the rows \<open>[y, 1 - y]\<close>, so count 1 is the number of attributed transactions with
  label 0. The credible interval is a Beta quantile pair, taken as the parameter
  \<open>interval\<close> of the two posterior counts. It serves as the consequent estimator of
  the example run; no theorem about the classifier depends on it.
\<close>

fun rule_usage :: "nat set list \<Rightarrow> nat list \<Rightarrow> nat set \<Rightarrow> nat set list" where
  "rule_usage Xs [] unused = []"
| "rule_usage Xs (j # d) unused = (unused \<inter> Xs ! j) # rule_usage Xs d (unused - Xs ! j)"

definition class_count :: "int list list \<Rightarrow> nat set \<Rightarrow> nat \<Rightarrow> nat" where
  "class_count Ys S c = length (filter (\<lambda>i. i \<in> S \<and> Ys ! i ! c = 1) [0..<length Ys])"

definition get_rule_rhs_spec ::
  "(real \<Rightarrow> real \<Rightarrow> real \<times> real) \<Rightarrow> nat set list \<Rightarrow> int list list \<Rightarrow> nat list \<Rightarrow> real list
     \<Rightarrow> error + (real list \<times> (real \<times> real) list)" where
  "get_rule_rhs_spec interval Xs Ys d al =
     (if length al = 2 \<and> list_all (\<lambda>r. length r = 2) Ys \<and> list_all (\<lambda>j. j < length Xs) d
      then
        (let post = map (\<lambda>S. (al ! 0 + real (class_count Ys S 0), al ! 1 + real (class_count Ys S 1)))
                      (rule_usage Xs d {0..<length Ys})
         in Inr (map (\<lambda>(a, b). b / (a + b)) post, map (\<lambda>(a, b). interval a b) post))
      else Inl IndexError)"

section \<open>An example run\<close>

text \<open>
  One concrete environment and data set, for evaluating the definitions: a miner that
  knows only the keyword \<^verbatim>\<open>max\<close> and returns every single item of its data, a label
  check that accepts its input, a data frame that needs one column label per column, a
  sampler run whose point estimate is the list of rule 2 followed by the null rule, and
  the consequent estimator and predictor modelled from the spec. The credible
  intervals of the example are the whole unit interval.
\<close>

definition example_fpgrowth :: "matrix \<Rightarrow> int \<Rightarrow> kw \<Rightarrow> int \<Rightarrow> error + (cell list \<times> int) list" where
  "example_fpgrowth rows supp k maxcard =
     (case k of
        Zmax \<Rightarrow> Inl (TypeError ''fpgrowth() got an unexpected keyword argument'')
      | Max \<Rightarrow> Inr (map (\<lambda>c. ([c], 1)) (remdups (concat rows))))"

definition example_env :: "(unit, unit) env" where
  "example_env =
     \<lparr> check_X_y = (\<lambda>X y. Inr (X, y)),
       fpgrowth = example_fpgrowth,
       DataFrame = (\<lambda>X cols. if list_all (\<lambda>r. length r = length cols) X
                              then Inr \<lparr> df_values = X, df_columns = cols \<rparr>
                              else Inl (ValueError ''columns passed do not match the data'')),
       MDLP_Discretizer = (\<lambda>df c. Inr \<lparr> d_data = df, d_cuts = [] \<rparr>),
       apply_cutpoints = (\<lambda>d. Inr d),
       astype_str = (\<lambda>c. case c of Str s \<Rightarrow> s | Num x \<Rightarrow> ''0''),
       str_round = (\<lambda>x decimals. ''0.0''),
       run_bdl_multichain_serial = (\<lambda>m Xtrain Ytrain nruleslen lhs_len. Inr ((), 1)),
       merge_chains = (\<lambda>res. Inr ()),
       get_point_estimate = (\<lambda>permsdic lhs_len Xtrain Ytrain m nruleslen. Inr (Some [2, 0])),
       get_rule_rhs = get_rule_rhs_spec (\<lambda>a b. (0, 1)),
       preds_d_t = preds_d_t_spec \<rparr>"

definition example_X :: matrix where
  "example_X = [[Str ''a''], [Str ''b'']]"

definition example_fitted :: model where
  "example_fitted =
     default_model
       \<lparr> d_star := Some [2, 0],
         feature_labels := Some [''f''],
         itemsets := Some [Null_str, Tuple [Str ''b''], Tuple [Str ''a'']],
         theta := Some [1 / 3, 2 / 3],
         ci_theta := Some [(0, 1), (0, 1)] \<rparr>"

text \<open>
  A miner of the same routine that knows the keyword \<^verbatim>\<open>zmax\<close>, and a fitted model
  that carries a discretizer.
\<close>

definition example_fpgrowth_zmax :: "matrix \<Rightarrow> int \<Rightarrow> kw \<Rightarrow> int \<Rightarrow> error + (cell list \<times> int) list" where
  "example_fpgrowth_zmax rows supp k maxcard = example_fpgrowth rows supp Max maxcard"

definition example_discretized :: model where
  "example_discretized =
     example_fitted
       \<lparr> discretizer := Some \<lparr> d_data = \<lparr> df_values = [], df_columns = [] \<rparr>, d_cuts = [] \<rparr>,
         feature_labels := Some [''f'', ''g''] \<rparr>"

text \<open>
  A run whose sampler visits no list beyond the null rule: the point estimate is
  \<^verbatim>\<open>None\<close>, and \<^verbatim>\<open>fit\<close> returns a model that has \<^verbatim>\<open>itemsets\<close> and no \<^verbatim>\<open>theta\<close>.
\<close>

definition example_env_no_estimate :: "(unit, unit) env" where
  "example_env_no_estimate =
     example_env \<lparr> get_point_estimate := (\<lambda>permsdic lhs_len Xtrain Ytrain m nruleslen. Inr None) \<rparr>"

definition example_failed :: model where
  "example_failed =
     default_model
       \<lparr> feature_labels := Some [''f''],
         itemsets := Some [Null_str, Tuple [Str ''b''], Tuple [Str ''a'']] \<rparr>"

text \<open>
  The shape of a model that \<^verbatim>\<open>fit\<close> left with a point estimate, as the spec describes it
  (section 4.5): the list ends in the null rule, \<open>theta\<close> is aligned with its positions,
  and every entry is an index into \<^verbatim>\<open>self.itemsets\<close>.
\<close>

definition fitted_wf :: "model \<Rightarrow> bool" where
  "fitted_wf m =
     (case (d_star m, theta m, itemsets m) of
        (Some d, Some th, Some its) \<Rightarrow>
          d \<noteq> [] \<and> last d = 0 \<and> length th = length d \<and> its \<noteq> [] \<and> list_all (\<lambda>j. j < length its) d
      | _ \<Rightarrow> False)"

section \<open>Facts about the encoding and the example run\<close>

lemma satisfying_iff:
  "i \<in> satisfying lhs rows \<longleftrightarrow> i < length rows \<and> set lhs \<subseteq> set (rows ! i)"
  by (auto simp: satisfying_def in_set_enumerate_eq image_iff)

lemma fold_update_succ:
  "length X0 = Suc (n + length mined) \<Longrightarrow>
   fold (\<lambda>(j, lhs) X. X[j + 1 := f lhs]) (enumerate n mined) X0 = take (Suc n) X0 @ map f mined"
proof (induction mined arbitrary: n X0)
  case Nil
  then show ?case by simp
next
  case (Cons a mined)
  have "fold (\<lambda>(j, lhs) X. X[j + 1 := f lhs]) (enumerate n (a # mined)) X0
        = fold (\<lambda>(j, lhs) X. X[j + 1 := f lhs]) (enumerate (Suc n) mined) (X0[Suc n := f a])"
    by simp
  also have "\<dots> = take (Suc (Suc n)) (X0[Suc n := f a]) @ map f mined"
    using Cons.prems by (intro Cons.IH) simp
  also have "take (Suc (Suc n)) (X0[Suc n := f a]) = take (Suc n) X0 @ [f a]"
    using Cons.prems by (simp add: take_Suc_conv_app_nth)
  finally show ?case by simp
qed

lemma fit_encode_eq:
  "fit_encode mined rows = {0..<length rows} # map (\<lambda>lhs. satisfying lhs rows) mined"
  unfolding fit_encode_def by (subst fold_update_succ) simp_all

lemma fold_update_pos:
  "0 < n \<Longrightarrow> length X0 = n + length its \<Longrightarrow>
   fold (\<lambda>(j, lhs) X. if j > 0 then X[j := g lhs] else X) (enumerate n its) X0 = take n X0 @ map g its"
proof (induction its arbitrary: n X0)
  case Nil
  then show ?case by simp
next
  case (Cons a its)
  have "fold (\<lambda>(j, lhs) X. if j > 0 then X[j := g lhs] else X) (enumerate n (a # its)) X0
        = fold (\<lambda>(j, lhs) X. if j > 0 then X[j := g lhs] else X) (enumerate (Suc n) its) (X0[n := g a])"
    using Cons.prems by simp
  also have "\<dots> = take (Suc n) (X0[n := g a]) @ map g its"
    using Cons.prems by (intro Cons.IH) simp_all
  also have "take (Suc n) (X0[n := g a]) = take n X0 @ [g a]"
    using Cons.prems by (simp add: take_Suc_conv_app_nth)
  finally show ?case by simp
qed

lemma to_itemset_indices_eq:
  "itemsets m = Some (a # its) \<Longrightarrow>
   to_itemset_indices m rows = Inr ({0..<length rows} # map (\<lambda>lhs. satisfying (items_of lhs) rows) its)"
  unfolding to_itemset_indices_def attr_def
  by (simp add: fold_update_pos)

text \<open>What \<^verbatim>\<open>fit\<close> stores in \<^verbatim>\<open>self.itemsets\<close> once the candidates are mined.\<close>

lemma fit_sample_itemsets:
  "itemsets (snd (fit_sample env m mined rows y)) = Some (Null_str # map Tuple mined)"
  by (simp add: fit_sample_def Let_def split: sum.splits prod.splits option.splits)

text \<open>The example run: training, then prediction on the training data.\<close>

lemma example_fit:
  "fit example_env default_model example_X [1, 0] (Some [''f'']) = (Inr (), example_fitted)"
  by (simp add: fit_def label_check_def example_env_def example_X_def fit_feature_labels_def
      fit_categorical_def fit_candidates_def select_label_def fit_mine_def mine_both_def
      example_fpgrowth_def fit_sample_def example_fitted_def default_model_def init_def
      get_rule_rhs_spec_def class_count_def fit_encode_def satisfying_def upt_rec Let_def)

lemma example_predict_proba:
  "predict_proba example_env example_fitted example_X
     = (Inr [[2 / 3, 1 / 3], [1 / 3, 2 / 3]], example_fitted)"
  by (simp add: predict_proba_def predict_data_def to_itemset_indices_eq [where a = Null_str]
      example_fitted_def default_model_def init_def attr_def example_env_def example_X_def
      preds_d_t_spec_def satisfying_def upt_rec)

lemma example_predict:
  "predict example_env example_fitted example_X = (Inr [1, 0], example_fitted)"
  by (simp add: predict_def example_predict_proba)

lemma untrained_predict_proba:
  "predict_proba example_env default_model example_X
     = (Inl (AttributeError ''itemsets''), default_model)"
  by (simp add: predict_proba_def predict_data_def to_itemset_indices_def
      default_model_def init_def attr_def)

lemma example_fit_no_estimate:
  "fit example_env_no_estimate default_model example_X [1, 0] (Some [''f''])
     = (Inr (), example_failed)"
  by (simp add: fit_def label_check_def example_env_no_estimate_def example_env_def example_X_def
      fit_feature_labels_def example_failed_def
      fit_categorical_def fit_candidates_def select_label_def fit_mine_def mine_both_def
      example_fpgrowth_def fit_sample_def default_model_def init_def)

lemma example_failed_predict_proba:
  "predict_proba example_env_no_estimate example_failed example_X
     = (Inl (AttributeError ''theta''), example_failed)"
  by (simp add: predict_proba_def predict_data_def to_itemset_indices_eq [where a = Null_str]
      attr_def example_failed_def default_model_def init_def)

section \<open>Prediction returns on a fitted model\<close>

lemma first_match_returns:
  "d \<noteq> [] \<Longrightarrow> last d = 0 \<Longrightarrow> k + length d = length th \<Longrightarrow> list_all (\<lambda>j. j < length Xs) d \<Longrightarrow>
   i \<in> Xs ! 0 \<Longrightarrow> \<exists>p. first_match Xs th i (enumerate k d) = Inr p"
proof (induction d arbitrary: k)
  case Nil
  then show ?case by simp
next
  case (Cons j r)
  show ?case
  proof (cases "r = []")
    case True
    with Cons.prems show ?thesis by simp
  next
    case False
    with Cons.prems have "\<exists>p. first_match Xs th i (enumerate (Suc k) r) = Inr p"
      by (intro Cons.IH) simp_all
    with Cons.prems show ?thesis by auto
  qed
qed

lemma collect_returns:
  "list_all (\<lambda>x. \<exists>v. x = Inr v) xs \<Longrightarrow> \<exists>l. collect xs = Inr l \<and> length l = length xs"
  by (induction xs) auto

lemma preds_d_t_spec_returns:
  assumes "d \<noteq> []" "last d = 0" "length th = length d" "list_all (\<lambda>j. j < length Xs) d"
    and "Xs \<noteq> []" "Xs ! 0 = {0..<n}"
  shows "\<exists>P. preds_d_t_spec Xs (replicate n [0]) (Some d) th = Inr P \<and> length P = n"
proof -
  have "list_all (\<lambda>x. \<exists>v. x = Inr v) (map (\<lambda>i. first_match Xs th i (enumerate 0 d)) [0..<n])"
    unfolding list_all_iff
  proof
    fix x assume "x \<in> set (map (\<lambda>i. first_match Xs th i (enumerate 0 d)) [0..<n])"
    then obtain i where i: "i < n" "x = first_match Xs th i (enumerate 0 d)" by auto
    with assms have "i \<in> Xs ! 0" by simp
    with assms first_match_returns [of d 0 th Xs i] i show "\<exists>v. x = Inr v" by simp
  qed
  from collect_returns [OF this] show ?thesis by (simp add: preds_d_t_spec_def)
qed

text \<open>
  With the predictor of the spec and no discretizer, \<^verbatim>\<open>predict_proba\<close> returns one row
  per sample on every well-formed fitted model: the statements below about the rows it
  returns are about every such call.
\<close>

lemma predict_proba_returns:
  assumes "fitted_wf m" and "discretizer m = None" and "preds_d_t env = preds_d_t_spec"
  shows "\<exists>T. predict_proba env m X = (Inr T, m) \<and> length T = length X"
proof -
  from assms(1) obtain d th its0 where m0: "d_star m = Some d" "theta m = Some th"
      "itemsets m = Some its0"
    and wf0: "d \<noteq> []" "last d = 0" "length th = length d" "its0 \<noteq> []"
      "list_all (\<lambda>j. j < length its0) d"
    by (auto simp: fitted_wf_def split: option.splits)
  from wf0(4) obtain a its where its0: "its0 = a # its" by (cases its0) auto
  from m0 its0 have m: "d_star m = Some d" "theta m = Some th" "itemsets m = Some (a # its)"
    by simp_all
  from wf0 its0 have wf: "d \<noteq> []" "last d = 0" "length th = length d"
      "list_all (\<lambda>j. j < length (a # its)) d"
    by simp_all
  let ?Xs = "{0..<length X} # map (\<lambda>lhs. satisfying (items_of lhs) X) its"
  from wf have "\<exists>P. preds_d_t_spec ?Xs (replicate (length X) [0]) (Some d) th = Inr P \<and> length P = length X"
    by (intro preds_d_t_spec_returns) simp_all
  then obtain P where "preds_d_t_spec ?Xs (replicate (length X) [0]) (Some d) th = Inr P" "length P = length X"
    by blast
  with m assms(2,3) show ?thesis
    by (simp add: predict_proba_def predict_data_def to_itemset_indices_eq attr_def)
qed

text \<open>The label \<^verbatim>\<open>predict\<close> gives a row: 1 when column 0 is at least one half, else 0.\<close>

lemma predict_labels:
  "fst (predict env m X)
     = map_sum id (map (\<lambda>r. if r ! 0 \<ge> 1 / 2 then 1 else 0)) (fst (predict_proba env m X))"
  by (simp add: predict_def split: prod.splits sum.splits)

lemma snd_predict_proba: "snd (predict_proba env m X) = snd (predict_data env m X)"
  by (simp add: predict_proba_def split: prod.splits sum.splits)

lemma snd_predict: "snd (predict env m X) = snd (predict_proba env m X)"
  by (simp add: predict_def split: prod.splits sum.splits)

section \<open>Claims about prediction\<close>

text \<open>
  Claim C1, as amended: whenever \<^verbatim>\<open>predict_proba\<close> returns, \<^verbatim>\<open>predict\<close> returns for
  each sample the label given by a 0.5 threshold on column 0 of \<^verbatim>\<open>predict_proba\<close>
  (the complement \<open>1 - P\<close> of the per-sample value \<open>P\<close>): the label is 1 when column 0
  is at least 0.5, and 0 otherwise; an error of \<^verbatim>\<open>predict_proba\<close> is the error of
  \<^verbatim>\<open>predict\<close>. The claim as stated has the two labels the other way round.
\<close>

theorem predict_threshold:
  "fst (predict env m X)
     = map_sum id (map (\<lambda>r. if r ! 0 \<ge> 1 / 2 then 1 else 0)) (fst (predict_proba env m X))
   \<and> (fst (predict_proba env m X) = Inr T \<longrightarrow>
        fst (predict env m X) = Inr (map (\<lambda>r. if r ! 0 \<ge> 1 / 2 then 1 else 0) T))
   \<and> (fst (predict_proba env m X) = Inl e \<longrightarrow> fst (predict env m X) = Inl e)"
  by (simp add: predict_def split: prod.splits sum.splits)

theorem predict_threshold_witness:
  "fst (predict_proba example_env example_fitted example_X) = Inr [[2 / 3, 1 / 3], [1 / 3, 2 / 3]]
   \<and> fst (predict example_env example_fitted example_X) = Inr [1, 0]
   \<and> fst (predict_proba example_env default_model example_X) = Inl (AttributeError ''itemsets'')
   \<and> fst (predict example_env default_model example_X) = Inl (AttributeError ''itemsets'')"
  using predict_threshold [of example_env example_fitted example_X
      "[[2 / 3, 1 / 3], [1 / 3, 2 / 3]]" "AttributeError ''itemsets''"]
    predict_threshold [of example_env default_model example_X
      "[[2 / 3, 1 / 3], [1 / 3, 2 / 3]]" "AttributeError ''itemsets''"]
  by (simp add: example_predict_proba untrained_predict_proba)

text \<open>
  On the example run, trained on the rows \<open>a\<close> (label 1) and \<open>b\<close> (label 0), column 0 is
  \<open>2/3\<close> for the row \<open>a\<close> and \<open>1/3\<close> for the row \<open>b\<close>. The claim as stated gives the
  labels 0 and 1; \<^verbatim>\<open>predict\<close> returns 1 and 0.
\<close>

theorem predict_claimed_labels_fail:
  "fst (predict_proba example_env example_fitted example_X) = Inr [[2 / 3, 1 / 3], [1 / 3, 2 / 3]]
   \<and> map (\<lambda>r. if r ! 0 \<ge> 1 / 2 then 0 else 1) [[2 / 3, 1 / 3], [1 / 3, 2 / 3 :: real]] = [0, 1 :: int]
   \<and> fst (predict example_env example_fitted example_X) = Inr [1, 0]
   \<and> fst (predict example_env example_fitted example_X)
       \<noteq> Inr (map (\<lambda>r. if r ! 0 \<ge> 1 / 2 then 0 else 1) [[2 / 3, 1 / 3], [1 / 3, 2 / 3 :: real]])"
  by (simp add: example_predict_proba example_predict)

text \<open>
  Claim C2, as amended: for every model whose point estimate is absent (\<open>d_star\<close> is
  \<^verbatim>\<open>None\<close>), the string description (\<^verbatim>\<open>tostring\<close>, and \<^verbatim>\<open>__str__\<close>) returns the
  explicit text \<^verbatim>\<open>(Untrained RuleListClassifier)\<close> and raises nothing. The claim as
  stated extends this to \<^verbatim>\<open>predict\<close> and \<^verbatim>\<open>predict_proba\<close>; the amended claim
  says nothing about them.
\<close>

theorem untrained_tostring:
  "d_star m = None \<Longrightarrow>
     tostring env m decimals = Inr ''(Untrained RuleListClassifier)''
   \<and> str env m = Inr ''(Untrained RuleListClassifier)''"
  by (simp add: tostring_def str_def truthy_def)

theorem untrained_tostring_witness:
  "d_star default_model = None
   \<and> tostring example_env default_model 1 = Inr ''(Untrained RuleListClassifier)''
   \<and> str example_env default_model = Inr ''(Untrained RuleListClassifier)''"
  using untrained_tostring [of default_model example_env 1]
  by (simp add: default_model_def init_def)

text \<open>
  The claim as stated fails on a classifier that was never fitted: \<^verbatim>\<open>predict_proba\<close>
  reads \<^verbatim>\<open>self.itemsets\<close>, which \<^verbatim>\<open>__init__\<close> does not set, and the
  \<^verbatim>\<open>AttributeError\<close> propagates through \<^verbatim>\<open>predict\<close>. It fails as well after a
  training whose point estimate is \<^verbatim>\<open>None\<close>: \<^verbatim>\<open>self.theta\<close> was never assigned.
\<close>

theorem untrained_predict_raises:
  "d_star default_model = None
   \<and> predict_proba example_env default_model example_X
       = (Inl (AttributeError ''itemsets''), default_model)
   \<and> predict example_env default_model example_X
       = (Inl (AttributeError ''itemsets''), default_model)
   \<and> fit example_env_no_estimate default_model example_X [1, 0] (Some [''f''])
       = (Inr (), example_failed)
   \<and> d_star example_failed = None
   \<and> predict_proba example_env_no_estimate example_failed example_X
       = (Inl (AttributeError ''theta''), example_failed)
   \<and> predict example_env_no_estimate example_failed example_X
       = (Inl (AttributeError ''theta''), example_failed)"
proof -
  have "d_star default_model = None" "d_star example_failed = None"
    by (simp_all add: example_failed_def default_model_def init_def)
  then show ?thesis
    by (simp add: predict_def untrained_predict_proba example_fit_no_estimate
        example_failed_predict_proba)
qed

text \<open>
  Claim C4: every row of the array that \<^verbatim>\<open>predict_proba\<close> returns has exactly two
  entries, built as \<open>[1 - P, P]\<close> from one per-sample probability \<open>P\<close>, and they sum
  to 1. The numbers are reals here: the sum is exact, where the floating-point sum
  of the source is 1 up to rounding.
\<close>

theorem predict_proba_rows:
  assumes "fst (predict_proba env m X) = Inr T" and "r \<in> set T"
  shows "length r = 2 \<and> r ! 0 + r ! 1 = 1 \<and> r = [1 - r ! 1, r ! 1]"
proof -
  from assms(1) obtain P where "T = map (\<lambda>p. [1 - p, p]) P"
    by (auto simp: predict_proba_def split: prod.splits sum.splits)
  with assms(2) obtain p where "r = [1 - p, p]" by auto
  then show ?thesis by simp
qed

theorem predict_proba_rows_witness:
  "fst (predict_proba example_env example_fitted example_X) = Inr [[2 / 3, 1 / 3], [1 / 3, 2 / 3]]
   \<and> [2 / 3, 1 / 3] \<in> set [[2 / 3, 1 / 3], [1 / 3, 2 / 3 :: real]]
   \<and> length [2 / 3, 1 / 3 :: real] = 2
   \<and> [2 / 3, 1 / 3 :: real] ! 0 + [2 / 3, 1 / 3] ! 1 = 1"
  using predict_proba_rows [of example_env example_fitted example_X
      "[[2 / 3, 1 / 3], [1 / 3, 2 / 3]]" "[2 / 3, 1 / 3]"]
  by (simp add: example_predict_proba)

text \<open>Calling the prediction functions again, and their independence of the training collaborators.\<close>

lemma predict_data_again:
  assumes cuts: "\<And>d d'. apply_cutpoints env d = Inr d' \<Longrightarrow> d_cuts d' = d_cuts d"
  shows "predict_data env (snd (predict_data env m X)) X = predict_data env m X"
proof (cases "discretizer m")
  case None
  then show ?thesis by (simp add: predict_data_def)
next
  case (Some disc)
  show ?thesis
  proof (cases "attr ''feature_labels'' (feature_labels m)")
    case (Inl e)
    with Some show ?thesis by (simp add: predict_data_def)
  next
    case fl: (Inr fl)
    show ?thesis
    proof (cases "DataFrame env X fl")
      case (Inl e)
      with Some fl show ?thesis by (simp add: predict_data_def)
    next
      case df: (Inr df)
      show ?thesis
      proof (cases "apply_cutpoints env (disc\<lparr>d_data := df\<rparr>)")
        case (Inl e)
        with Some fl df show ?thesis by (simp add: predict_data_def)
      next
        case (Inr disc')
        from cuts [OF Inr] have "d_cuts disc' = d_cuts disc" by simp
        then have "disc'\<lparr>d_data := df\<rparr> = disc\<lparr>d_data := df\<rparr>" by simp
        with Some fl df Inr show ?thesis by (simp add: predict_data_def)
      qed
    qed
  qed
qed

lemma predict_proba_via_data:
  "predict_data env m' X = predict_data env m X \<Longrightarrow> predict_proba env m' X = predict_proba env m X"
  by (simp add: predict_proba_def)

lemma predict_proba_again:
  assumes "\<And>d d'. apply_cutpoints env d = Inr d' \<Longrightarrow> d_cuts d' = d_cuts d"
  shows "predict_proba env (snd (predict_proba env m X)) X = predict_proba env m X"
  unfolding snd_predict_proba
  by (rule predict_proba_via_data) (rule predict_data_again [OF assms])

lemma predict_data_no_sampler:
  "predict_data (env\<lparr>fpgrowth := fp, run_bdl_multichain_serial := s, merge_chains := mc,
                      get_point_estimate := g, get_rule_rhs := rr\<rparr>) m X = predict_data env m X"
  by (simp add: predict_data_def prepend_feature_labels_def split: option.splits sum.splits)

lemma predict_proba_no_sampler:
  "predict_proba (env\<lparr>fpgrowth := fp, run_bdl_multichain_serial := s, merge_chains := mc,
                      get_point_estimate := g, get_rule_rhs := rr\<rparr>) m X = predict_proba env m X"
  by (simp add: predict_proba_def predict_data_no_sampler split: prod.splits sum.splits)

text \<open>
  Claim C5: calling \<^verbatim>\<open>predict_proba\<close> or \<^verbatim>\<open>predict\<close> twice on the same input gives
  the same output, and nothing is sampled at prediction time. The second call runs on
  the model the first call left (with a discretizer, its \<^verbatim>\<open>_data\<close> was overwritten);
  it returns the same result and leaves the same model, provided that applying the cut
  points does not change the cut points. Neither function depends on the miner, the
  sampler, the merger, the point estimator or the consequent estimator.
\<close>

theorem predict_repeatable:
  assumes "\<And>d d'. apply_cutpoints env d = Inr d' \<Longrightarrow> d_cuts d' = d_cuts d"
  shows "predict_proba env (snd (predict_proba env m X)) X = predict_proba env m X
       \<and> predict env (snd (predict env m X)) X = predict env m X
       \<and> predict_proba (env\<lparr>fpgrowth := fp, run_bdl_multichain_serial := s, merge_chains := mc,
                            get_point_estimate := g, get_rule_rhs := rr\<rparr>) m X = predict_proba env m X
       \<and> predict (env\<lparr>fpgrowth := fp, run_bdl_multichain_serial := s, merge_chains := mc,
                      get_point_estimate := g, get_rule_rhs := rr\<rparr>) m X = predict env m X"
proof -
  have a: "predict_proba env (snd (predict_proba env m X)) X = predict_proba env m X"
    by (rule predict_proba_again [OF assms])
  have b: "predict env (snd (predict env m X)) X = predict env m X"
    unfolding snd_predict by (simp add: predict_def a)
  have c: "predict (env\<lparr>fpgrowth := fp, run_bdl_multichain_serial := s, merge_chains := mc,
                      get_point_estimate := g, get_rule_rhs := rr\<rparr>) m X = predict env m X"
    by (simp only: predict_def predict_proba_no_sampler)
  from a b c show ?thesis by (simp only: predict_proba_no_sampler simp_thms)
qed

theorem predict_repeatable_witness:
  "fst (predict_proba example_env example_discretized [[Num 1, Num 2]]) = Inr [[1 / 3, 2 / 3]]
   \<and> predict_proba example_env (snd (predict_proba example_env example_discretized [[Num 1, Num 2]]))
         [[Num 1, Num 2]]
       = predict_proba example_env example_discretized [[Num 1, Num 2]]
   \<and> predict example_env (snd (predict example_env example_discretized [[Num 1, Num 2]]))
         [[Num 1, Num 2]]
       = predict example_env example_discretized [[Num 1, Num 2]]"
proof -
  have h: "\<And>d d'. apply_cutpoints example_env d = Inr d' \<Longrightarrow> d_cuts d' = d_cuts d"
    by (auto simp: example_env_def)
  have "fst (predict_proba example_env example_discretized [[Num 1, Num 2]]) = Inr [[1 / 3, 2 / 3]]"
    by (simp add: predict_proba_def predict_data_def to_itemset_indices_eq [where a = Null_str]
      example_discretized_def example_fitted_def default_model_def init_def attr_def
      example_env_def prepend_feature_labels_def preds_d_t_spec_def satisfying_def)
  with predict_repeatable [of example_env example_discretized "[[Num 1, Num 2]]", OF h]
  show ?thesis by simp
qed

text \<open>
  Claim C10: for a model without a discretizer (fitted on categorical data),
  \<^verbatim>\<open>predict_proba\<close> and \<^verbatim>\<open>predict\<close> leave the model as it was: every attribute,
  \<open>d_star\<close>, \<open>theta\<close>, \<open>ci_theta\<close>, \<open>itemsets\<close>, \<open>feature_labels\<close> and \<open>discretizer\<close>
  among them, is unchanged, whether the call returns or raises.
\<close>

theorem predict_frame:
  assumes "discretizer m = None"
  shows "snd (predict_proba env m X) = m \<and> snd (predict env m X) = m"
proof -
  have "predict_data env m X = (Inr X, m)"
    using assms by (simp add: predict_data_def)
  then have "snd (predict_proba env m X) = m"
    by (simp add: snd_predict_proba)
  then show ?thesis by (simp add: snd_predict)
qed

theorem predict_frame_witness:
  "discretizer example_fitted = None
   \<and> snd (predict_proba example_env example_fitted example_X) = example_fitted
   \<and> snd (predict example_env example_fitted example_X) = example_fitted"
  using predict_frame [of example_fitted example_env example_X]
  by (simp add: example_fitted_def default_model_def init_def)

section \<open>Claims about training\<close>

text \<open>
  Claim C3: when the label vector does not have exactly two distinct values, \<^verbatim>\<open>fit\<close>
  raises at once, whatever the collaborators would do, and the model is left as it was
  (\<open>d_star\<close> and every other attribute unchanged); when it has exactly two, the label
  check does not raise.
\<close>

theorem fit_label_check:
  "(card (set y) \<noteq> 2 \<longrightarrow>
      fit env m X y given
        = (Inl (Exception ''Only binary classification is supported at this time!''), m))
   \<and> (card (set y) = 2 \<longrightarrow> label_check y = Inr ())"
  by (simp add: fit_def label_check_def)

theorem fit_label_check_witness:
  "card (set [1, 1 :: int]) \<noteq> 2
   \<and> fit example_env default_model example_X [1, 1] None
       = (Inl (Exception ''Only binary classification is supported at this time!''), default_model)
   \<and> card (set [1, 0 :: int]) = 2
   \<and> label_check [1, 0] = Inr ()"
  using fit_label_check [of "[1, 1]" example_env default_model example_X None]
    fit_label_check [of "[1, 0]" example_env default_model example_X None]
  by simp

text \<open>
  Claim C6: satisfaction set 0 is the full range of transaction indices, in the
  encoding that \<^verbatim>\<open>fit\<close> builds and in the one that \<^verbatim>\<open>_to_itemset_indices\<close> rebuilds
  at prediction time. The latter exists whenever \<^verbatim>\<open>self.itemsets\<close> is a non-empty
  list, as it is after \<^verbatim>\<open>fit\<close> (\<open>fit_sample_itemsets\<close>).
\<close>

theorem satisfaction_set_zero:
  assumes "itemsets m = Some its" and "its \<noteq> []"
  shows "fit_encode mined rows ! 0 = {0..<length rows}
       \<and> (\<exists>Xs. to_itemset_indices m D = Inr Xs \<and> Xs ! 0 = {0..<length D})"
proof -
  from assms obtain a r where "itemsets m = Some (a # r)" by (cases its) auto
  then show ?thesis by (simp add: fit_encode_eq to_itemset_indices_eq)
qed

theorem satisfaction_set_zero_witness:
  "itemsets example_fitted = Some [Null_str, Tuple [Str ''b''], Tuple [Str ''a'']]
   \<and> fit_encode [[Str ''b''], [Str ''a'']] example_X ! 0 = {0..<length example_X}
   \<and> (\<exists>Xs. to_itemset_indices example_fitted example_X = Inr Xs \<and> Xs ! 0 = {0..<length example_X})"
  using satisfaction_set_zero [of example_fitted "[Null_str, Tuple [Str ''b''], Tuple [Str ''a'']]"
      "[[Str ''b''], [Str ''a'']]" example_X example_X]
  by (simp add: example_fitted_def)

text \<open>
  Claim C7: for every rule index \<open>j > 0\<close> and every transaction \<open>i\<close>, the index \<open>i\<close> is
  in satisfaction set \<open>j\<close> exactly when the itemset of rule \<open>j\<close> (entry \<open>j\<close> of
  \<^verbatim>\<open>self.itemsets\<close>, which is mined itemset \<open>j - 1\<close>) is a subset of the tokens of
  transaction \<open>i\<close>; in the encoding of \<^verbatim>\<open>fit\<close> and in the one rebuilt at prediction
  time.
\<close>

theorem satisfaction_set_subset:
  assumes "0 < j" and "i < length rows"
  shows "(j \<le> length mined \<longrightarrow>
            (i \<in> fit_encode mined rows ! j
               \<longleftrightarrow> set (items_of ((Null_str # map Tuple mined) ! j)) \<subseteq> set (rows ! i)))
       \<and> (itemsets m = Some its \<and> j < length its \<longrightarrow>
            (\<exists>Xs. to_itemset_indices m rows = Inr Xs
               \<and> (i \<in> Xs ! j \<longleftrightarrow> set (items_of (its ! j)) \<subseteq> set (rows ! i))))"
proof (intro conjI impI)
  assume "j \<le> length mined"
  with assms obtain k where k: "j = Suc k" "k < length mined" by (cases j) auto
  then show "i \<in> fit_encode mined rows ! j
               \<longleftrightarrow> set (items_of ((Null_str # map Tuple mined) ! j)) \<subseteq> set (rows ! i)"
    using assms(2) by (simp add: fit_encode_eq satisfying_iff)
next
  assume h: "itemsets m = Some its \<and> j < length its"
  with assms obtain k where k: "j = Suc k" by (cases j) auto
  from h obtain a r where its: "its = a # r" by (cases its) auto
  with h k have "k < length r" by simp
  with h its k assms(2)
  show "\<exists>Xs. to_itemset_indices m rows = Inr Xs
               \<and> (i \<in> Xs ! j \<longleftrightarrow> set (items_of (its ! j)) \<subseteq> set (rows ! i))"
    by (simp add: to_itemset_indices_eq satisfying_iff)
qed

theorem satisfaction_set_subset_witness:
  "0 \<in> fit_encode [[Str ''b''], [Str ''a'']] example_X ! 2
   \<and> set (items_of ((Null_str # map Tuple [[Str ''b''], [Str ''a'']]) ! 2)) \<subseteq> set (example_X ! 0)
   \<and> (\<exists>Xs. to_itemset_indices example_fitted example_X = Inr Xs \<and> 0 \<in> Xs ! 2)
   \<and> 1 \<notin> fit_encode [[Str ''b''], [Str ''a'']] example_X ! 2"
  using satisfaction_set_subset [of 2 0 example_X "[[Str ''b''], [Str ''a'']]" example_fitted
      "[Null_str, Tuple [Str ''b''], Tuple [Str ''a'']]"]
    satisfaction_set_subset [of 2 1 example_X "[[Str ''b''], [Str ''a'']]" example_fitted
      "[Null_str, Tuple [Str ''b''], Tuple [Str ''a'']]"]
  by (simp add: example_fitted_def example_X_def)

text \<open>
  Claim C8: when mining under the keyword \<^verbatim>\<open>zmax\<close> raises \<^verbatim>\<open>TypeError\<close>, \<^verbatim>\<open>fit\<close>
  calls the same miner on the same two class partitions with the same \<open>minsupport\<close>
  and \<open>maxcardinality\<close> under the keyword \<^verbatim>\<open>max\<close>; if that spelling means to the
  miner \<open>fp\<close> what \<^verbatim>\<open>zmax\<close> means to a miner \<open>fp'\<close> that knows it, the candidates are
  those the primary call produces with \<open>fp'\<close>. When the primary call raises no
  \<^verbatim>\<open>TypeError\<close>, its result (candidates or another error) stands. The miner, the
  partitions and the two values are the ones \<^verbatim>\<open>fit\<close> passes: \<^verbatim>\<open>fpgrowth\<close>,
  \<^verbatim>\<open>data_pos\<close>, \<^verbatim>\<open>data_neg\<close>, \<^verbatim>\<open>self.minsupport\<close> and \<^verbatim>\<open>self.maxcardinality\<close>.
\<close>

theorem fit_mine_fallback:
  "(mine_both fp Zmax data_pos data_neg supp maxcard = Inl (TypeError msg) \<longrightarrow>
       fit_mine fp data_pos data_neg supp maxcard = mine_both fp Max data_pos data_neg supp maxcard
     \<and> (fp data_pos supp Max maxcard = fp' data_pos supp Zmax maxcard
          \<and> fp data_neg supp Max maxcard = fp' data_neg supp Zmax maxcard \<longrightarrow>
        fit_mine fp data_pos data_neg supp maxcard = mine_both fp' Zmax data_pos data_neg supp maxcard))
   \<and> ((\<forall>msg'. mine_both fp Zmax data_pos data_neg supp maxcard \<noteq> Inl (TypeError msg')) \<longrightarrow>
       fit_mine fp data_pos data_neg supp maxcard = mine_both fp Zmax data_pos data_neg supp maxcard)
   \<and> (select_label rows y 0 = Inr data_pos \<and> select_label rows y 1 = Inr data_neg
        \<and> length data_pos + length data_neg = length rows \<longrightarrow>
       fit_candidates env m rows y
         = map_sum id remdups
             (fit_mine (fpgrowth env) data_pos data_neg (minsupport m) (maxcardinality m)))"
proof (intro conjI impI)
  assume "mine_both fp Zmax data_pos data_neg supp maxcard = Inl (TypeError msg)"
  then show a: "fit_mine fp data_pos data_neg supp maxcard = mine_both fp Max data_pos data_neg supp maxcard"
    by (simp add: fit_mine_def)
  assume "fp data_pos supp Max maxcard = fp' data_pos supp Zmax maxcard
          \<and> fp data_neg supp Max maxcard = fp' data_neg supp Zmax maxcard"
  then have "mine_both fp Max data_pos data_neg supp maxcard = mine_both fp' Zmax data_pos data_neg supp maxcard"
    by (simp add: mine_both_def split: sum.splits)
  with a show "fit_mine fp data_pos data_neg supp maxcard = mine_both fp' Zmax data_pos data_neg supp maxcard"
    by simp
next
  assume "\<forall>msg'. mine_both fp Zmax data_pos data_neg supp maxcard \<noteq> Inl (TypeError msg')"
  then show "fit_mine fp data_pos data_neg supp maxcard = mine_both fp Zmax data_pos data_neg supp maxcard"
    by (auto simp: fit_mine_def split: sum.splits error.splits)
next
  assume "select_label rows y 0 = Inr data_pos \<and> select_label rows y 1 = Inr data_neg
        \<and> length data_pos + length data_neg = length rows"
  then show "fit_candidates env m rows y
         = map_sum id remdups
             (fit_mine (fpgrowth env) data_pos data_neg (minsupport m) (maxcardinality m))"
    by (simp add: fit_candidates_def split: sum.splits)
qed

theorem fit_mine_fallback_witness:
  "mine_both example_fpgrowth Zmax [[Str ''b'']] [[Str ''a'']] 10 2
     = Inl (TypeError ''fpgrowth() got an unexpected keyword argument'')
   \<and> fit_mine example_fpgrowth [[Str ''b'']] [[Str ''a'']] 10 2 = Inr [[Str ''b''], [Str ''a'']]
   \<and> mine_both example_fpgrowth_zmax Zmax [[Str ''b'']] [[Str ''a'']] 10 2 = Inr [[Str ''b''], [Str ''a'']]
   \<and> fit_mine example_fpgrowth_zmax [[Str ''b'']] [[Str ''a'']] 10 2 = Inr [[Str ''b''], [Str ''a'']]
   \<and> select_label example_X [1, 0] 0 = Inr [[Str ''b'']]
   \<and> select_label example_X [1, 0] 1 = Inr [[Str ''a'']]
   \<and> fit_candidates example_env default_model example_X [1, 0] = Inr [[Str ''b''], [Str ''a'']]"
proof -
  let ?pos = "[[Str ''b'']]" and ?neg = "[[Str ''a'']]"
  have z: "mine_both example_fpgrowth Zmax ?pos ?neg 10 2
             = Inl (TypeError ''fpgrowth() got an unexpected keyword argument'')"
    by (simp add: mine_both_def example_fpgrowth_def)
  have same: "example_fpgrowth ?pos 10 Max 2 = example_fpgrowth_zmax ?pos 10 Zmax 2
            \<and> example_fpgrowth ?neg 10 Max 2 = example_fpgrowth_zmax ?neg 10 Zmax 2"
    by (simp add: example_fpgrowth_zmax_def)
  have mz: "mine_both example_fpgrowth_zmax Zmax ?pos ?neg 10 2 = Inr [[Str ''b''], [Str ''a'']]"
    by (simp add: mine_both_def example_fpgrowth_def example_fpgrowth_zmax_def)
  have sel: "select_label example_X [1, 0] 0 = Inr ?pos" "select_label example_X [1, 0] 1 = Inr ?neg"
      "length ?pos + length ?neg = length example_X"
    by (simp_all add: select_label_def example_X_def)
  have par: "fpgrowth example_env = example_fpgrowth" "minsupport default_model = 10"
      "maxcardinality default_model = 2"
    by (simp_all add: example_env_def default_model_def init_def)
  note fb = fit_mine_fallback [of example_fpgrowth ?pos ?neg 10 2
      "''fpgrowth() got an unexpected keyword argument''" example_fpgrowth_zmax
      example_X "[1, 0]" example_env default_model]
  from fb z same mz have a: "fit_mine example_fpgrowth ?pos ?neg 10 2 = Inr [[Str ''b''], [Str ''a'']]"
    by metis
  from fb sel
  have "fit_candidates example_env default_model example_X [1, 0]
          = map_sum id remdups
              (fit_mine (fpgrowth example_env) ?pos ?neg (minsupport default_model)
                 (maxcardinality default_model))"
    by blast
  with par a
  have c: "fit_candidates example_env default_model example_X [1, 0] = Inr [[Str ''b''], [Str ''a'']]"
    by simp
  from fit_mine_fallback [of example_fpgrowth_zmax ?pos ?neg 10 2 "''''" example_fpgrowth_zmax
      example_X "[1, 0]" example_env default_model] mz
  have b: "fit_mine example_fpgrowth_zmax ?pos ?neg 10 2 = Inr [[Str ''b''], [Str ''a'']]"
    by simp
  from z a mz b sel c show ?thesis by simp
qed

text \<open>
  The class partitions of \<^verbatim>\<open>fit\<close>. When every label is 0 or 1 and every transaction
  has a label, the transactions with label 0 and those with label 1 are two lists whose
  sizes sum to the number of transactions: the assertion holds and the mining runs on
  the two partitions.
\<close>

lemma partition_sizes:
  "\<forall>p \<in> set ps. y ! fst p = 0 \<or> y ! fst p = (1::int) \<Longrightarrow>
   length (filter (\<lambda>(i, x). y ! i = 0) ps) + length (filter (\<lambda>(i, x). y ! i = 1) ps) = length ps"
  by (induction ps) (auto split: prod.splits)

lemma partition_binary_labels:
  assumes "\<forall>v \<in> set y. v = 0 \<or> v = 1" and "length rows \<le> length y"
  shows "\<exists>data_pos data_neg.
           select_label rows y 0 = Inr data_pos \<and> select_label rows y 1 = Inr data_neg
         \<and> length data_pos + length data_neg = length rows
         \<and> fit_candidates env m rows y
             = map_sum id remdups (fit_mine (fpgrowth env) data_pos data_neg (minsupport m) (maxcardinality m))"
proof -
  have "\<forall>p \<in> set (enumerate 0 rows). y ! fst p = 0 \<or> y ! fst p = 1"
    using assms by (auto simp: in_set_enumerate_eq)
  then have "length (filter (\<lambda>(i, x). y ! i = 0) (enumerate 0 rows))
           + length (filter (\<lambda>(i, x). y ! i = 1) (enumerate 0 rows)) = length rows"
    by (simp add: partition_sizes)
  with assms(2) show ?thesis
    by (simp add: fit_candidates_def select_label_def split: sum.splits)
qed

lemma partition_binary_labels_example:
  "select_label example_X [1, 0] 0 = Inr [[Str ''b'']]
   \<and> select_label example_X [1, 0] 1 = Inr [[Str ''a'']]
   \<and> length [[Str ''b'']] + length [[Str ''a'']] = length example_X
   \<and> fit_candidates example_env default_model example_X [1, 0] = Inr [[Str ''b''], [Str ''a'']]"
  using partition_binary_labels [of "[1, 0]" example_X example_env default_model]
  by (simp add: select_label_def example_X_def example_env_def fit_mine_def mine_both_def
      example_fpgrowth_def)

text \<open>
  Claim C9: for every input that passes the label check of \<^verbatim>\<open>fit\<close> (two distinct
  label values), the transactions with label 0 and those with label 1 have sizes that
  sum to the number of transactions, so the assertion of \<^verbatim>\<open>fit\<close> never fails.

  The label check counts the distinct values; the partitions compare the labels with
  the literals 0 and 1. The labels 1 and 2 pass the check, no transaction has label 0,
  the sizes are 0 and 1 for two transactions, and \<^verbatim>\<open>fit\<close> stops at its own assertion.
\<close>

theorem partition_assertion_fails:
  "label_check [1, 2] = Inr ()
   \<and> select_label example_X [1, 2] 0 = Inr []
   \<and> select_label example_X [1, 2] 1 = Inr [[Str ''a'']]
   \<and> length ([] :: matrix) + length [[Str ''a'']] \<noteq> length example_X
   \<and> fst (fit example_env default_model example_X [1, 2] (Some [''f''])) = Inl AssertionError"
  by (simp add: fit_def label_check_def example_env_def example_X_def fit_feature_labels_def
      fit_categorical_def fit_candidates_def select_label_def)

end
